theory Spec2Isabelle
  imports Main "HOL-Library.Char_ord" "HOL-Library.List_Lexorder" "HOL-Library.Word"
    "HOL-Library.Multiset"
begin

section \<open>Go maps with string keys\<close>

text \<open>
  A Go \<open>map[string]V\<close> is modelled as an association list. \<open>put\<close> is the assignment
  \<open>m[k] = v\<close>: it overwrites an existing key and otherwise inserts the key at its place in
  the byte-wise order of Go strings, so a map built by assignments from the empty map has
  one representation whatever the order of the assignments.
\<close>

type_synonym 'v gomap = "(string \<times> 'v) list"

fun put :: "string \<Rightarrow> 'v \<Rightarrow> 'v gomap \<Rightarrow> 'v gomap" where
  "put k v [] = [(k, v)]"
| "put k v ((k', v') # m) =
     (if k < k' then (k, v) # (k', v') # m
      else if k = k' then (k, v) # m
      else (k', v') # put k v m)"

definition has_key :: "'v gomap \<Rightarrow> string \<Rightarrow> bool" where
  "has_key m k = (map_of m k \<noteq> None)"

definition wf_map :: "'v gomap \<Rightarrow> bool" where
  "wf_map m = (sorted (map fst m) \<and> distinct (map fst m))"

section \<open>Values of the result object (internal/object.go, view/vo.go)\<close>

text \<open>
  The integer types of \<open>validator.FieldType\<close>: Go's \<open>int\<close> and \<open>uint\<close> (64 bits on the
  platforms the module is built for) and the sized types.
\<close>

datatype ikind = WInt | W8 | W16 | W32 | W64

fun bits :: "ikind \<Rightarrow> nat" where
  "bits WInt = 64"
| "bits W8 = 8"
| "bits W16 = 16"
| "bits W32 = 32"
| "bits W64 = 64"

text \<open>
  The type parameter \<open>T\<close> of a field. The floating-point and \<open>time.Time\<close> instances are
  outside this development (their coercions are floating-point arithmetic and the layouts
  of the time package).
\<close>

datatype ftype = TString | TBool | TInt ikind | TUint ikind

text \<open>
  What an \<open>any\<close> stored in a \<open>Data\<close> can hold: the nil interface, a primitive, a slice
  \<open>[]T\<close> of primitives, a slice \<open>[]ValueObject\<close>, a plain \<open>internal.Data\<close> map, or a
  \<open>view.valueObject\<close> wrapping a \<open>Data\<close>.
\<close>

datatype val =
    VNil
  | VString string
  | VBool bool
  | VInt ikind int
  | VUint ikind int
  | VSlice ftype "val list"
  | VObjects "val list"
  | VData "(string \<times> val) list"
  | VObject "(string \<times> val) list"

type_synonym data = "val gomap"

text \<open>A call that can panic: \<open>Panics\<close> is the panic, \<open>Returns x\<close> a normal return.\<close>

datatype 'a outcome = Panics | Returns 'a

text \<open>\<open>Data.Fields\<close>: the keys, sorted with \<open>sort.Strings\<close>.\<close>

definition Fields :: "data \<Rightarrow> string list" where
  "Fields vo = sort (map fst vo)"

text \<open>
  \<open>Data.Add\<close>: two assertions (\<open>lo.Assertf\<close> panics when its condition is false), then
  the assignment.
\<close>

definition Add :: "data \<Rightarrow> string \<Rightarrow> val \<Rightarrow> data outcome" where
  "Add vo name v =
     (if has_key vo name then Panics
      else if CHR ''.'' \<in> set name then Panics
      else Returns (put name v vo))"

text \<open>\<open>Data.Update\<close>: panics unless the property exists.\<close>

definition Update :: "data \<Rightarrow> string \<Rightarrow> val \<Rightarrow> data outcome" where
  "Update vo name v = (if \<not> has_key vo name then Panics else Returns (put name v vo))"

section \<open>Path resolution: \<open>internal.Get\<close>\<close>

text \<open>The requested type \<open>T\<close> of \<open>Get[T]\<close>: \<open>any\<close>, a primitive, or a slice of primitives.\<close>

datatype reqtype = RAny | RPrim ftype | RSlice ftype

text \<open>
  The type assertion \<open>val.(T)\<close>. On the nil interface it fails for every \<open>T\<close>, also for
  \<open>any\<close>.
\<close>

fun has_type :: "reqtype \<Rightarrow> val \<Rightarrow> bool" where
  "has_type _ VNil = False"
| "has_type RAny _ = True"
| "has_type (RPrim TString) (VString _) = True"
| "has_type (RPrim TBool) (VBool _) = True"
| "has_type (RPrim (TInt k)) (VInt k' _) = (k = k')"
| "has_type (RPrim (TUint k)) (VUint k' _) = (k = k')"
| "has_type (RSlice t) (VSlice t' _) = (t = t')"
| "has_type _ _ = False"

text \<open>\<open>strings.Split(s, ".")\<close>, for any separator character.\<close>

fun split_on :: "char \<Rightarrow> string \<Rightarrow> string list" where
  "split_on c [] = [[]]"
| "split_on c (x # xs) =
     (if x = c then [] # split_on c xs
      else (case split_on c xs of [] \<Rightarrow> [[x]] | p # ps \<Rightarrow> (x # p) # ps))"

definition is_digit :: "char \<Rightarrow> bool" where
  "is_digit c = (CHR ''0'' \<le> c \<and> c \<le> CHR ''9'')"

definition digit_val :: "char \<Rightarrow> nat" where
  "digit_val c = of_char c - of_char CHR ''0''"

text \<open>The value of a string of decimal digits, most significant first.\<close>

definition dec_val :: "string \<Rightarrow> nat" where
  "dec_val ds = foldl (\<lambda>n c. 10 * n + digit_val c) 0 ds"

text \<open>
  \<open>strconv.Atoi\<close> on a 64-bit platform: an optional sign, then at least one decimal digit
  and nothing else; a value outside the range of \<open>int\<close> is an error. \<open>None\<close> is the
  error return.
\<close>

definition Atoi :: "string \<Rightarrow> int option" where
  "Atoi s =
     (let neg = (s \<noteq> [] \<and> hd s = CHR ''-'');
          ds = (if s \<noteq> [] \<and> (hd s = CHR ''-'' \<or> hd s = CHR ''+'') then tl s else s)
      in if ds = [] \<or> \<not> list_all is_digit ds then None
         else let n = int (dec_val ds); v = (if neg then - n else n)
              in if v < - (2 ^ 63) \<or> 2 ^ 63 \<le> v then None else Some v)"

text \<open>
  The loop of \<open>Get\<close> over the path parts, from the current value. A \<open>Data\<close> is looked up
  by key. A \<open>valueObject\<close> is asked through its own \<open>Get\<close>, that is \<open>Get[any]\<close> on its
  \<open>Data\<close> with one part: the key is looked up, a nil value found there fails the
  assertion to \<open>any\<close>, and a missing key is an empty result (\<open>Get_part\<close> below shows it).
  A slice is indexed, with both assertions. Anything else with a part left is an empty
  result. After the last part comes the type assertion.
\<close>

fun walk :: "reqtype \<Rightarrow> val \<Rightarrow> string list \<Rightarrow> val option outcome" where
  "walk T cur [] = (if has_type T cur then Returns (Some cur) else Panics)"
| "walk T VNil (part # rest) = Returns None"
| "walk T (VData m) (part # rest) =
     (case map_of m part of None \<Rightarrow> Returns None | Some nxt \<Rightarrow> walk T nxt rest)"
| "walk T (VObject m) (part # rest) =
     (case map_of m part of
        None \<Rightarrow> Returns None
      | Some nxt \<Rightarrow> if has_type RAny nxt then walk T nxt rest else Panics)"
| "walk T (VSlice t xs) (part # rest) =
     (case Atoi part of
        None \<Rightarrow> Panics
      | Some i \<Rightarrow> if 0 \<le> i \<and> i < int (length xs) then walk T (xs ! nat i) rest else Panics)"
| "walk T (VObjects xs) (part # rest) =
     (case Atoi part of
        None \<Rightarrow> Panics
      | Some i \<Rightarrow> if 0 \<le> i \<and> i < int (length xs) then walk T (xs ! nat i) rest else Panics)"
| "walk T _ (part # rest) = Returns None"

definition Get :: "reqtype \<Rightarrow> data \<Rightarrow> string \<Rightarrow> val option outcome" where
  "Get T d name =
     (case map_of d name of
        Some v \<Rightarrow> if has_type T v then Returns (Some v) else Panics
      | None \<Rightarrow> walk T (VData d) (split_on CHR ''.'' name))"



section \<open>Flattening: \<open>valueObject.FlatMap\<close>\<close>




text \<open>
  \<open>ToSQLXValueObject\<close> of view/vo.go, up to the wrapping by \<open>sqlx.NewValueObject\<close>: the
  top-level properties are copied into a new map, nested maps stay nested.
\<close>

fun copy_fields :: "(string \<times> val) list \<Rightarrow> data \<Rightarrow> data outcome" where
  "copy_fields [] m = Returns m"
| "copy_fields ((k, v) # vo) m =
     (if \<not> has_type RAny v then Panics else copy_fields vo (put k v m))"

definition ToSQLXValueObject :: "data \<Rightarrow> data outcome" where
  "ToSQLXValueObject vo = copy_fields vo []"






section \<open>Errors (package validator, \<open>validationError\<close>)\<close>

text \<open>
  A Go error: a plain message (\<open>errors.New\<close>, or \<open>fmt.Errorf\<close> without \<open>%w\<close>), an
  error wrapped by \<open>fmt.Errorf\<close> with one \<open>%w\<close> (the text before and after the wrapped
  error is kept), or a \<open>*validationError\<close> with its map from field path to error.
\<close>

datatype err =
    Msg string
  | Wrapf string err string
  | Agg "(string \<times> err) list"

type_synonym errmap = "err gomap"

definition ErrIntegerOverflow :: err where
  "ErrIntegerOverflow = Msg ''integer overflow''"

definition ErrTypeMismatch :: err where
  "ErrTypeMismatch = Msg ''type mismatch''"

definition ErrRequired :: err where
  "ErrRequired = Msg ''is required but not found''"

text \<open>\<open>validationError.add\<close>: a later error for the same path replaces the earlier one.\<close>

definition add :: "string \<Rightarrow> err \<Rightarrow> errmap \<Rightarrow> errmap" where
  "add fieldName e errors = put fieldName e errors"

text \<open>
  \<open>Error()\<close>, the message of an error. For a \<open>validationError\<close>: nothing when the map is
  empty; otherwise the keys are collected and sorted, the header is written, and for
  each key one \<open>fmt.Sprintf("- %s: %s", k, e.errors[k])\<close> is written after it.
\<close>

fun Error :: "err \<Rightarrow> string"
  and Error_lines :: "(string \<times> err) list \<Rightarrow> (string \<times> string) list" where
  "Error (Msg s) = s"
| "Error (Wrapf before e after) = before @ Error e @ after"
| "Error (Agg errors) =
     (if errors = [] then []
      else let msgs = Error_lines errors; keys = sort (map fst errors)
           in ''validation failed with the following errors:'' @
              concat (map (\<lambda>k. ''- '' @ k @ '': '' @ (case map_of msgs k of Some s \<Rightarrow> s | None \<Rightarrow> [])) keys))"
| "Error_lines [] = []"
| "Error_lines ((k, e) # errors) = (k, Error e) # Error_lines errors"

text \<open>\<open>errors.As(e, &nested)\<close> for a \<open>*validationError\<close> target: the first one on the chain.\<close>

fun as_validation :: "err \<Rightarrow> errmap option" where
  "as_validation (Msg s) = None"
| "as_validation (Wrapf before e after) = as_validation e"
| "as_validation (Agg errors) = Some errors"

text \<open>\<open>errors.Is(e, target)\<close> for a sentinel: the chain of e reaches the target.\<close>

fun err_is :: "err \<Rightarrow> err \<Rightarrow> bool" where
  "err_is (Wrapf before e after) target = (Wrapf before e after = target \<or> err_is e target)"
| "err_is e target = (e = target)"

text \<open>One item of the message of a \<open>validationError\<close>: \<open>fmt.Sprintf("- %s: %s", k, e)\<close>.\<close>

definition item :: "string \<Rightarrow> err \<Rightarrow> string" where
  "item k e = ''- '' @ k @ '': '' @ Error e"

section \<open>Decimal text of integers (\<open>strconv.FormatInt\<close>, \<open>%d\<close>)\<close>

definition digit_char :: "nat \<Rightarrow> char" where
  "digit_char d = ''0123456789'' ! d"

function digits :: "nat \<Rightarrow> string" where
  "digits n = (if n < 10 then [digit_char n] else digits (n div 10) @ [digit_char (n mod 10)])"
  by pat_completeness auto
termination
  by (relation "measure id") auto

declare digits.simps [simp del]

definition FormatInt :: "int \<Rightarrow> string" where
  "FormatInt i = (if i < 0 then CHR ''-'' # digits (nat (- i)) else digits (nat i))"

definition FormatUint :: "nat \<Rightarrow> string" where
  "FormatUint n = digits n"

section \<open>JSON nodes (\<open>gjson.Result\<close>)\<close>

text \<open>
  A parsed JSON value. A number keeps its raw text, a string is held unescaped, an
  object keeps its members in document order.
\<close>

datatype json =
    JNull
  | JTrue
  | JFalse
  | JNumber string
  | JString string
  | JArray "json list"
  | JObject "(string \<times> json) list"

text \<open>The name of \<open>res.Type\<close>, as \<open>%s\<close> prints it.\<close>

fun type_name :: "json \<Rightarrow> string" where
  "type_name JNull = ''Null''"
| "type_name JTrue = ''True''"
| "type_name JFalse = ''False''"
| "type_name (JNumber _) = ''Number''"
| "type_name (JString _) = ''String''"
| "type_name (JArray _) = ''JSON''"
| "type_name (JObject _) = ''JSON''"

text \<open>
  \<open>res.Int()\<close> and \<open>res.Uint()\<close> of the library on a number node, as 64-bit values.
  On the text of an integer literal they give the integer, reduced into 64 bits when
  it does not fit. On any other text (a fraction, an exponent) the library rounds; the
  value is not modelled, since its decimal text can never equal such a raw text, which
  is the only thing \<open>typedJson\<close> asks of it.
\<close>

definition gjson_Int :: "string \<Rightarrow> 64 word" where
  "gjson_Int raw =
     (if raw \<noteq> [] \<and> hd raw = CHR ''-'' \<and> tl raw \<noteq> [] \<and> list_all is_digit (tl raw)
        then word_of_int (- int (dec_val (tl raw)))
      else if raw \<noteq> [] \<and> list_all is_digit raw then word_of_int (int (dec_val raw))
      else 0)"

definition gjson_Uint :: "string \<Rightarrow> 64 word" where
  "gjson_Uint raw =
     (if raw \<noteq> [] \<and> list_all is_digit raw then word_of_nat (dec_val raw) else 0)"

section \<open>Coercion: \<open>typedJson\<close> and \<open>typedString\<close>\<close>

text \<open>The name of the type \<open>T\<close>, as \<open>%T\<close> prints it.\<close>

fun ikind_suffix :: "ikind \<Rightarrow> string" where
  "ikind_suffix WInt = []"
| "ikind_suffix W8 = ''8''"
| "ikind_suffix W16 = ''16''"
| "ikind_suffix W32 = ''32''"
| "ikind_suffix W64 = ''64''"

fun go_type_name :: "ftype \<Rightarrow> string" where
  "go_type_name TString = ''string''"
| "go_type_name TBool = ''bool''"
| "go_type_name (TInt k) = ''int'' @ ikind_suffix k"
| "go_type_name (TUint k) = ''uint'' @ ikind_suffix k"

text \<open>\<open>validator.OverflowError\<close>: \<open>fmt.Errorf("for type %T: %w", v, ErrIntegerOverflow)\<close>.\<close>

definition OverflowError :: "ftype \<Rightarrow> err" where
  "OverflowError T = Wrapf (''for type '' @ go_type_name T @ '': '') ErrIntegerOverflow []"

text \<open>\<open>reflect.Value.OverflowInt\<close> and \<open>OverflowUint\<close> for a type of the given width.\<close>

definition OverflowInt :: "ikind \<Rightarrow> int \<Rightarrow> bool" where
  "OverflowInt k x = (x < - (2 ^ (bits k - 1)) \<or> 2 ^ (bits k - 1) \<le> x)"

definition OverflowUint :: "ikind \<Rightarrow> nat \<Rightarrow> bool" where
  "OverflowUint k x = (2 ^ bits k \<le> x)"

text \<open>The error at the end of \<open>typedJson\<close>, for a node of another kind than the type asks.\<close>

definition mismatch :: "ftype \<Rightarrow> json \<Rightarrow> err" where
  "mismatch T res =
     Wrapf [] ErrTypeMismatch
       ('': expected '' @ go_type_name T @ '' but got raw type '' @ type_name res)"

text \<open>
  \<open>typedJson\<close>: the coercion of a JSON node to the type \<open>T\<close>. \<open>Inl\<close> is the error of the
  returned \<open>mo.Result\<close>, \<open>Inr\<close> its value.
\<close>

fun typedJson :: "ftype \<Rightarrow> json \<Rightarrow> err + val" where
  "typedJson TString res =
     (case res of JString s \<Rightarrow> Inr (VString s) | _ \<Rightarrow> Inl (mismatch TString res))"
| "typedJson TBool res =
     (case res of JTrue \<Rightarrow> Inr (VBool True) | JFalse \<Rightarrow> Inr (VBool False)
      | _ \<Rightarrow> Inl (mismatch TBool res))"
| "typedJson (TInt k) res =
     (case res of
        JNumber raw \<Rightarrow>
          (let v = gjson_Int raw in
           if FormatInt (sint v) \<noteq> raw then
             (if CHR ''.'' \<in> set raw
              then Inl (Wrapf [] ErrTypeMismatch
                         ('': cannot assign float value '' @ raw @ '' to integer type''))
              else Inl (OverflowError (TInt k)))
           else if OverflowInt k (sint v) then Inl (OverflowError (TInt k))
           else Inr (VInt k (sint v)))
      | _ \<Rightarrow> Inl (mismatch (TInt k) res))"
| "typedJson (TUint k) res =
     (case res of
        JNumber raw \<Rightarrow>
          (if CHR ''-'' \<in> set raw then Inl (OverflowError (TUint k))
           else let v = gjson_Uint raw in
             if FormatUint (unat v) \<noteq> raw then
               (if CHR ''.'' \<in> set raw
                then Inl (Wrapf [] ErrTypeMismatch
                           ('': cannot assign float value '' @ raw @ '' to unsigned integer type''))
                else Inl (OverflowError (TUint k)))
             else if OverflowUint k (unat v) then Inl (OverflowError (TUint k))
             else Inr (VUint k (int (unat v))))
      | _ \<Rightarrow> Inl (mismatch (TUint k) res))"

text \<open>
  \<open>typedString\<close>, that is \<open>validator.ParseStringTo\<close>, for a value that came as a string
  (a URL parameter). \<open>strconv.ParseBool\<close> knows twelve spellings; \<open>strconv.ParseInt\<close>
  takes an optional sign and decimal digits, \<open>strconv.ParseUint\<close> digits only, and both
  refuse a value that does not fit in 64 bits. The text of a \<open>strconv\<close> error quotes the
  input (written here between plain double quotes).
\<close>

definition ParseBool :: "string \<Rightarrow> bool option" where
  "ParseBool s =
     (if s \<in> set [''1'', ''t'', ''T'', ''TRUE'', ''true'', ''True''] then Some True
      else if s \<in> set [''0'', ''f'', ''F'', ''FALSE'', ''false'', ''False''] then Some False
      else None)"

definition NumError :: "string \<Rightarrow> string \<Rightarrow> string \<Rightarrow> err" where
  "NumError fn s what = Msg (''strconv.'' @ fn @ '': parsing '' @ [CHR 0x22] @ s @ [CHR 0x22] @ '': '' @ what)"

definition ParseInt :: "string \<Rightarrow> err + int" where
  "ParseInt s =
     (let neg = (s \<noteq> [] \<and> hd s = CHR ''-'');
          ds = (if s \<noteq> [] \<and> (hd s = CHR ''-'' \<or> hd s = CHR ''+'') then tl s else s)
      in if ds = [] \<or> \<not> list_all is_digit ds then Inl (NumError ''ParseInt'' s ''invalid syntax'')
         else let n = int (dec_val ds); v = (if neg then - n else n)
              in if v < - (2 ^ 63) \<or> 2 ^ 63 \<le> v
                 then Inl (NumError ''ParseInt'' s ''value out of range'')
                 else Inr v)"

definition ParseUint :: "string \<Rightarrow> err + nat" where
  "ParseUint s =
     (if s = [] \<or> \<not> list_all is_digit s then Inl (NumError ''ParseUint'' s ''invalid syntax'')
      else if 2 ^ 64 \<le> dec_val s then Inl (NumError ''ParseUint'' s ''value out of range'')
      else Inr (dec_val s))"

fun typedString :: "ftype \<Rightarrow> string \<Rightarrow> err + val" where
  "typedString TString s = Inr (VString s)"
| "typedString TBool s =
     (case ParseBool s of
        None \<Rightarrow> Inl (Wrapf (''could not parse '' @ [CHR 0x27] @ s @ [CHR 0x27] @ '' as bool: '')
                     (NumError ''ParseBool'' s ''invalid syntax'') [])
      | Some b \<Rightarrow> Inr (VBool b))"
| "typedString (TInt k) s =
     (case ParseInt s of
        Inl e \<Rightarrow> Inl (Wrapf (''could not parse '' @ [CHR 0x27] @ s @ [CHR 0x27] @ '' as int: '') e [])
      | Inr v \<Rightarrow> if OverflowInt k v then Inl (OverflowError (TInt k)) else Inr (VInt k v))"
| "typedString (TUint k) s =
     (case ParseUint s of
        Inl e \<Rightarrow> Inl (Wrapf (''could not parse '' @ [CHR 0x27] @ s @ [CHR 0x27] @ '' as uint: '') e [])
      | Inr v \<Rightarrow> if OverflowUint k v then Inl (OverflowError (TUint k)) else Inr (VUint k (int v)))"

section \<open>Fields and schemas (view/vo.go)\<close>

text \<open>
  \<open>JSONField[T]\<close> and \<open>Schema\<close>. The type parameter is the component \<open>elemType\<close>; a
  validator is a function from the coerced value to an optional error. The scope of a
  field plays no part in validation and is left out.
\<close>

datatype field =
  Field (qualifiedName: string) (required: bool) (isArray: bool) (isObject: bool)
        (embedded: "schema option") (elemType: ftype) (validators: "(val \<Rightarrow> err option) list")
and schema =
  Schema (fields: "field list") (allowUnknownFields: bool)

text \<open>\<open>Name\<close>: the part of the qualified name after its last dot.\<close>

definition Name :: "field \<Rightarrow> string" where
  "Name f =
     (let q = qualifiedName f in
      if q = [] then [] else if CHR ''.'' \<in> set q then last (split_on CHR ''.'' q) else q)"

definition UniqueName :: "field \<Rightarrow> string" where
  "UniqueName f = (if qualifiedName f \<noteq> [] then qualifiedName f else Name f)"

text \<open>\<open>fmt.Errorf("field '%s': %w", f.Name(), err)\<close>.\<close>

definition field_error :: "field \<Rightarrow> err \<Rightarrow> err" where
  "field_error f e = Wrapf (''field '' @ [CHR 0x27] @ Name f @ [CHR 0x27] @ '': '') e []"

text \<open>The first error of the validators, in their order.\<close>

fun first_error :: "(val \<Rightarrow> err option) list \<Rightarrow> val \<Rightarrow> err option" where
  "first_error [] v = None"
| "first_error (vfn # vs) v = (case vfn v of Some e \<Rightarrow> Some e | None \<Rightarrow> first_error vs v)"

text \<open>The three outcomes of a call that returns a \<open>mo.Result\<close>: a panic, an error, a value.\<close>

datatype 'a result = Panic | Err err | Ok 'a

definition validateRaw :: "field \<Rightarrow> string \<Rightarrow> val result" where
  "validateRaw f v =
     (case typedString (elemType f) v of
        Inl e \<Rightarrow> Err (field_error f e)
      | Inr val \<Rightarrow>
          (case first_error (validators f) val of
             Some e \<Rightarrow> Err (field_error f e)
           | None \<Rightarrow> Ok val))"

text \<open>The fallback of \<open>validate\<close> for a field that is neither an array nor an object.\<close>

definition validate_scalar :: "field \<Rightarrow> json \<Rightarrow> val result" where
  "validate_scalar f node =
     (case typedJson (elemType f) node of
        Inl e \<Rightarrow> Err (field_error f e)
      | Inr val \<Rightarrow>
          (case first_error (validators f) val of
             Some e \<Rightarrow> Err (field_error f e)
           | None \<Rightarrow> Ok val))"

text \<open>The key of element \<open>index\<close> of an array field: \<open>fmt.Sprintf("%s[%d]", f.Name(), index)\<close>.\<close>

definition index_key :: "string \<Rightarrow> nat \<Rightarrow> string" where
  "index_key name i = name @ ''['' @ FormatInt (int i) @ '']''"

text \<open>
  The loop over the elements of an array of primitives, from element \<open>i\<close>, with the
  errors and the values collected so far. Every failing validator of an element writes
  its error under the key of the element, so the last one stays. An element is
  appended only while no error at all has been recorded.
\<close>

definition add_failures :: "(val \<Rightarrow> err option) list \<Rightarrow> val \<Rightarrow> string \<Rightarrow> errmap \<Rightarrow> errmap" where
  "add_failures vs v key errs =
     fold (\<lambda>vfn errs. case vfn v of Some e \<Rightarrow> add key e errs | None \<Rightarrow> errs) vs errs"

fun validate_elements ::
  "field \<Rightarrow> json list \<Rightarrow> nat \<Rightarrow> errmap \<times> val list \<Rightarrow> errmap \<times> val list" where
  "validate_elements f [] i st = st"
| "validate_elements f (element # rest) i (errs, values) =
     (case typedJson (elemType f) element of
        Inl e \<Rightarrow> validate_elements f rest (Suc i) (add (index_key (Name f) i) e errs, values)
      | Inr v \<Rightarrow>
          (let errs' = add_failures (validators f) v (index_key (Name f) i) errs
           in validate_elements f rest (Suc i)
                (errs', if errs' = [] then values @ [v] else values)))"

text \<open>
  \<open>setObjectField\<close> and \<open>setNestedField\<close>: the value is stored under a dotted key, through
  nested \<open>Data\<close> maps that are made on the way; a \<open>valueObject\<close> met on the way is copied
  into a \<open>Data\<close> by \<open>Fields\<close> and \<open>Get\<close> (the loop \<open>copy_fields\<close>).
\<close>

definition setObjectField :: "data \<Rightarrow> string \<Rightarrow> val \<Rightarrow> data" where
  "setObjectField object key v =
     (case v of VData m \<Rightarrow> put key (VObject m) object | _ \<Rightarrow> put key v object)"

fun setNested :: "data \<Rightarrow> string list \<Rightarrow> val \<Rightarrow> data outcome" where
  "setNested object [] v = Returns object"
| "setNested object [final] v = Returns (setObjectField object final v)"
| "setNested object (p # rest) v =
     (case (case map_of object p of
              Some (VData m) \<Rightarrow> Returns m
            | Some (VObject vo) \<Rightarrow> copy_fields vo []
            | _ \<Rightarrow> Returns []) of
        Panics \<Rightarrow> Panics
      | Returns inner \<Rightarrow>
          (case setNested inner rest v of
             Panics \<Rightarrow> Panics
           | Returns inner' \<Rightarrow> Returns (put p (VData inner') object)))"

definition setNestedField :: "data \<Rightarrow> string \<Rightarrow> val \<Rightarrow> data outcome" where
  "setNestedField object key v = setNested object (split_on CHR ''.'' key) v"

section \<open>The document and the structural phase of \<open>Schema.Validate\<close>\<close>

text \<open>
  The JSON text given to \<open>Validate\<close>: empty, not valid JSON, or a JSON value. The two
  queries of the library on it are the list of its keys (\<open>@keys\<close>: the member names of
  an object in document order; one empty name for each element of an array and one for
  a scalar) and the member with a given name of an object (the first, if the name is
  repeated; an element of an array for a name that is a number). Field names are taken
  as plain names: the query syntax of the library (wildcards, escapes, modifiers) is not
  modelled.
\<close>

datatype doc = NoBody | Malformed string | Body json

fun json_keys :: "json \<Rightarrow> string list" where
  "json_keys (JObject members) = map fst members"
| "json_keys (JArray elements) = replicate (length elements) []"
| "json_keys _ = [[]]"

fun json_get :: "json \<Rightarrow> string \<Rightarrow> json option" where
  "json_get (JObject members) name = map_of members name"
| "json_get (JArray elements) name =
     (if name \<noteq> [] \<and> list_all is_digit name \<and> dec_val name < length elements
      then Some (elements ! dec_val name) else None)"
| "json_get _ name = None"

fun doc_keys :: "doc \<Rightarrow> string list" where
  "doc_keys (Body j) = json_keys j"
| "doc_keys _ = []"

fun doc_get :: "doc \<Rightarrow> string \<Rightarrow> json option" where
  "doc_get (Body j) name = json_get j name"
| "doc_get _ name = None"


definition quoted :: "string \<Rightarrow> string" where
  "quoted s = [CHR 0x27] @ s @ [CHR 0x27]"

text \<open>\<open>voFields\<close>: for each field name, whether the field is an array or an object.\<close>

definition voFields :: "schema \<Rightarrow> bool gomap" where
  "voFields s = fold (\<lambda>f m. put (Name f) (isArray f \<or> isObject f) m) (fields s) []"

text \<open>
  The body of the loop over the URL parameters, on the errors and the merged parameters,
  and the loop over the parameter maps. A parameter map is given as the list of its
  entries in the order in which \<open>range\<close> meets them.
\<close>

definition merge_param :: "schema \<Rightarrow> string \<times> string \<Rightarrow> errmap \<times> string gomap \<Rightarrow> errmap \<times> string gomap" where
  "merge_param s kv st =
     (let k = fst kv; v = snd kv; errs = fst st; urlPair = snd st;
          errs1 = (if has_key urlPair k
                   then add k (Msg (''duplicated url parameter '' @ quoted k)) errs else errs);
          errs2 = (if \<not> allowUnknownFields s then
                     (case map_of (voFields s) k of
                        None \<Rightarrow> add k (Msg (''unknown url parameter '' @ quoted k)) errs1
                      | Some nested \<Rightarrow>
                          if nested
                          then add k (Msg (''url parameter '' @ quoted k @ '' is mapped to a embedded object'')) errs1
                          else errs1)
                   else errs1)
      in (errs2, put k v urlPair))"

definition merge_params :: "schema \<Rightarrow> (string \<times> string) list list \<Rightarrow> errmap \<times> string gomap" where
  "merge_params s urlParams = fold (\<lambda>pair st. fold (merge_param s) pair st) urlParams ([], [])"

text \<open>The loop over the keys of the JSON document.\<close>

definition check_key :: "schema \<Rightarrow> string gomap \<Rightarrow> string \<Rightarrow> errmap \<Rightarrow> errmap" where
  "check_key s urlPair jsonKey errs =
     (let errs1 = (if has_key urlPair jsonKey
                   then add jsonKey (Msg (''duplicate parameter in url and json '' @ quoted jsonKey)) errs
                   else errs)
      in if \<not> allowUnknownFields s \<and> \<not> has_key (voFields s) jsonKey
         then add jsonKey (Msg (''unknown json field '' @ quoted jsonKey)) errs1
         else errs1)"

definition structural :: "schema \<Rightarrow> doc \<Rightarrow> (string \<times> string) list list \<Rightarrow> errmap \<times> string gomap" where
  "structural s json urlParams =
     (let st = merge_params s urlParams
      in (fold (check_key s (snd st)) (doc_keys json) (fst st), snd st))"

text \<open>
  After a field is validated: an error is merged into the errors of the call (the
  entries of a \<open>validationError\<close> found on its chain, or else the error under the field
  name), a value is stored under the unique name of the field.
\<close>

definition merge_error :: "field \<Rightarrow> err \<Rightarrow> errmap \<Rightarrow> errmap" where
  "merge_error f e errs =
     (case as_validation e of
        Some nested \<Rightarrow> fold (\<lambda>kv errs. add (fst kv) (snd kv) errs) nested errs
      | None \<Rightarrow> add (Name f) e errs)"

definition store :: "field \<Rightarrow> val result \<Rightarrow> data \<times> errmap \<Rightarrow> (data \<times> errmap) outcome" where
  "store f rs st =
     (case rs of
        Panic \<Rightarrow> Panics
      | Err e \<Rightarrow> Returns (fst st, merge_error f e (snd st))
      | Ok v \<Rightarrow>
          (case setNestedField (fst st) (UniqueName f) v of
             Panics \<Rightarrow> Panics
           | Returns object \<Rightarrow> Returns (object, snd st)))"

text \<open>A required field that is in neither source: \<open>fmt.Errorf("%s %w", name, ErrRequired)\<close>.\<close>

definition missing :: "field \<Rightarrow> data \<times> errmap \<Rightarrow> data \<times> errmap" where
  "missing f st =
     (if required f then (fst st, add (Name f) (Wrapf (Name f @ '' '') ErrRequired []) (snd st))
      else st)"

text \<open>The copy of the URL parameters into the object of a permissive schema.\<close>

definition copy_params :: "string gomap \<Rightarrow> data \<Rightarrow> data" where
  "copy_params urlPair object =
     fold (\<lambda>kv object. if has_key object (fst kv) then object
                        else put (fst kv) (VString (snd kv)) object) urlPair object"

text \<open>
  What an element of an array of objects adds to the errors: the error of the nested
  validation, or the one inner error when that is a \<open>validationError\<close> with a single entry.
\<close>

definition element_error :: "err \<Rightarrow> err" where
  "element_error e =
     (case as_validation e of
        Some nested \<Rightarrow> if length nested = 1 then snd (hd nested) else e
      | None \<Rightarrow> e)"

section \<open>\<open>JSONField.validate\<close> and \<open>Schema.Validate\<close>\<close>

text \<open>
  The two functions call each other through the embedded schemas. \<open>validate_objects\<close> is
  the loop of \<open>validate\<close> over the elements of an array of objects and \<open>Validate_fields\<close>
  the loop of \<open>Validate\<close> over the fields, on the object and the errors built so far.
  \<open>MustGet\<close> on the missing embedded schema of an object field is a panic.
\<close>

function (sequential) validate :: "field \<Rightarrow> json \<Rightarrow> val result"
  and validate_objects ::
    "schema \<Rightarrow> string \<Rightarrow> json list \<Rightarrow> nat \<Rightarrow> errmap \<times> val list \<Rightarrow> (errmap \<times> val list) outcome"
  and Validate_fields ::
    "field list \<Rightarrow> doc \<Rightarrow> string gomap \<Rightarrow> data \<times> errmap \<Rightarrow> (data \<times> errmap) outcome"
  and Validate :: "schema \<Rightarrow> doc \<Rightarrow> (string \<times> string) list list \<Rightarrow> data result" where
  "validate (Field q r a ob emb T vs) node =
     (if ob \<and> \<not> a then
        (case emb of
           None \<Rightarrow> Panic
         | Some nested \<Rightarrow>
             (case Validate nested (Body node) [] of
                Panic \<Rightarrow> Panic
              | Err e \<Rightarrow>
                  Err (Wrapf (''field '' @ quoted (Name (Field q r a ob emb T vs)) @ '' validation failed, '') e [])
              | Ok vo \<Rightarrow> Ok (VObject vo)))
      else if a then
        (case node of
           JArray elements \<Rightarrow>
             (case emb of
                Some nested \<Rightarrow>
                  (case validate_objects nested (Name (Field q r a ob emb T vs)) elements 0 ([], []) of
                     Panics \<Rightarrow> Panic
                   | Returns (errs, values) \<Rightarrow>
                       if errs \<noteq> [] then Err (Agg errs) else Ok (VObjects values))
              | None \<Rightarrow>
                  (case validate_elements (Field q r a ob emb T vs) elements 0 ([], []) of
                     (errs, values) \<Rightarrow> if errs \<noteq> [] then Err (Agg errs) else Ok (VSlice T values)))
         | _ \<Rightarrow>
             Err (Msg (''dvo: field '' @ quoted (Name (Field q r a ob emb T vs))
                        @ '' expected a JSON array but got Clause'')))
      else validate_scalar (Field q r a ob emb T vs) node)"
| "validate_objects nested name [] i st = Returns st"
| "validate_objects nested name (element # rest) i (errs, values) =
     (case element of
        JObject members \<Rightarrow>
          (case Validate nested (Body element) [] of
             Panic \<Rightarrow> Panics
           | Err e \<Rightarrow>
               validate_objects nested name rest (Suc i)
                 (add (index_key name i) (element_error e) errs, values)
           | Ok vo \<Rightarrow>
               validate_objects nested name rest (Suc i)
                 (errs, if errs = [] then values @ [VObject vo] else values))
      | _ \<Rightarrow>
          validate_objects nested name rest (Suc i)
            (add (index_key name i) (Msg ''expected a JSON object but got Clause'') errs, values))"
| "Validate_fields [] json urlPair st = Returns st"
| "Validate_fields (f # rest) json urlPair st =
     (case doc_get json (Name f) of
        None \<Rightarrow>
          (case map_of urlPair (Name f) of
             None \<Rightarrow> Validate_fields rest json urlPair (missing f st)
           | Some urlValue \<Rightarrow>
               (case store f (validateRaw f urlValue) st of
                  Panics \<Rightarrow> Panics
                | Returns st' \<Rightarrow> Validate_fields rest json urlPair st'))
      | Some node \<Rightarrow>
          (case store f (validate f node) st of
             Panics \<Rightarrow> Panics
           | Returns st' \<Rightarrow> Validate_fields rest json urlPair st'))"
| "Validate (Schema fs allow) json urlParams =
     (case json of
        Malformed text \<Rightarrow> Err (Msg (''invalid json '' @ text))
      | _ \<Rightarrow>
          (case structural (Schema fs allow) json urlParams of
             (errs, urlPair) \<Rightarrow>
               if errs \<noteq> [] then Err (Agg errs)
               else
                 (case Validate_fields fs json urlPair ([], errs) of
                    Panics \<Rightarrow> Panic
                  | Returns (object, errs') \<Rightarrow>
                      if errs' \<noteq> [] then Err (Agg errs')
                      else Ok (if allow then copy_params urlPair object else object))))"
  by pat_completeness auto
termination
  apply (relation "measures
    [\<lambda>x. case x of
         Inl (Inl (f, node)) \<Rightarrow> 2 * size f + 1
       | Inl (Inr (nested, name, elements, i, st)) \<Rightarrow> 2 * size nested + 2
       | Inr (Inl (fs, json, urlPair, st)) \<Rightarrow> 2 * size_list size fs + 2
       | Inr (Inr (s, json, urlParams)) \<Rightarrow> 2 * size s + 1,
     \<lambda>x. case x of
         Inl (Inr (nested, name, elements, i, st)) \<Rightarrow> length elements
       | _ \<Rightarrow> 0]")
  apply simp_all
  done

section \<open>Properties of maps\<close>

lemma map_of_put: "map_of (put k v m) = (map_of m)(k \<mapsto> v)"
  by (induction m) (auto simp: fun_eq_iff)


section \<open>Properties of \<open>Data.Add\<close>\<close>

text \<open>
  C10. \<open>Add\<close> panics when the name is already a property or contains a dot; otherwise it
  returns the object with the value stored under the name and every other property as
  it was. So a name stored by \<open>Add\<close> is dot-free and was not a property before.
\<close>

theorem Add_guarded:
  "((has_key vo name \<or> CHR ''.'' \<in> set name) \<longrightarrow> Add vo name v = Panics) \<and>
   (\<not> has_key vo name \<and> CHR ''.'' \<notin> set name \<longrightarrow>
      (\<exists>vo'. Add vo name v = Returns vo' \<and> map_of vo' name = Some v \<and>
             (\<forall>k. k \<noteq> name \<longrightarrow> map_of vo' k = map_of vo k))) \<and>
   (\<forall>vo'. Add vo name v = Returns vo' \<longrightarrow>
      CHR ''.'' \<notin> set name \<and> map_of vo name = None \<and> vo' = put name v vo)"
  by (auto simp: Add_def has_key_def map_of_put)

theorem Add_guarded_witness:
  "Add [(''id'', VString ''1'')] ''id'' (VString ''2'') = Panics \<and>
   Add [(''id'', VString ''1'')] ''a.b'' (VString ''2'') = Panics \<and>
   Add [(''id'', VString ''1'')] ''age'' (VInt WInt 30)
     = Returns [(''age'', VInt WInt 30), (''id'', VString ''1'')]"
  using Add_guarded [of "[(''id'', VString ''1'')]" "''id''" "VString ''2''"]
        Add_guarded [of "[(''id'', VString ''1'')]" "''a.b''" "VString ''2''"]
        Add_guarded [of "[(''id'', VString ''1'')]" "''age''" "VInt WInt 30"]
  by (auto simp: has_key_def)

section \<open>Properties of \<open>Get\<close>\<close>

lemma split_on_no_sep: "c \<notin> set s \<Longrightarrow> split_on c s = [s]"
  by (induction s) auto

text \<open>
  What a \<open>valueObject\<close> answers when the loop of \<open>Get\<close> asks it for one part: the case
  of \<open>walk\<close> for \<open>VObject\<close> is this call followed by the rest of the loop.
\<close>

lemma Get_part:
  "CHR ''.'' \<notin> set part \<Longrightarrow>
   Get RAny m part =
     (case map_of m part of
        None \<Rightarrow> Returns None
      | Some nxt \<Rightarrow> if has_type RAny nxt then Returns (Some nxt) else Panics)"
  by (simp add: Get_def split_on_no_sep split: option.splits)



section \<open>Properties of \<open>FlatMap\<close>\<close>








text \<open>\<open>ToSQLXValueObject\<close> of view/vo.go, by contrast, keeps a nested object nested.\<close>

lemma ToSQLXValueObject_keeps_nesting:
  "ToSQLXValueObject [(''id'', VString ''1''), (''user'', VObject [(''email'', VString ''x'')])]
     = Returns [(''id'', VString ''1''), (''user'', VObject [(''email'', VString ''x'')])]"
  by (simp add: ToSQLXValueObject_def)

section \<open>Properties of \<open>typedJson\<close>\<close>

lemmas decimal_eval =
  gjson_Int_def gjson_Uint_def is_digit_def dec_val_def digit_val_def FormatInt_def
  FormatUint_def digits.simps digit_char_def OverflowInt_def OverflowUint_def

text \<open>
  C3. For a signed integer type of width N (8, 16, 32 or 64 bits, and \<open>int\<close>), the JSON
  number 2^(N-1) is refused with the overflow error and 2^(N-1)-1 is accepted with that
  value. For an unsigned type, -1 is refused with the overflow error and 0 is accepted;
  any raw text that begins with a minus sign is refused with the overflow error, which
  wraps \<open>ErrIntegerOverflow\<close> and not \<open>ErrTypeMismatch\<close>, also when the text has a
  fraction.
\<close>

theorem typedJson_integer_bounds:
  "typedJson (TInt k) (JNumber (FormatInt (2 ^ (bits k - 1)))) = Inl (OverflowError (TInt k)) \<and>
   typedJson (TInt k) (JNumber (FormatInt (2 ^ (bits k - 1) - 1)))
     = Inr (VInt k (2 ^ (bits k - 1) - 1)) \<and>
   typedJson (TUint k) (JNumber ''-1'') = Inl (OverflowError (TUint k)) \<and>
   typedJson (TUint k) (JNumber ''0'') = Inr (VUint k 0) \<and>
   (raw \<noteq> [] \<and> hd raw = CHR ''-'' \<longrightarrow>
      typedJson (TUint k) (JNumber raw) = Inl (OverflowError (TUint k))) \<and>
   err_is (OverflowError (TUint k)) ErrIntegerOverflow \<and>
   \<not> err_is (OverflowError (TUint k)) ErrTypeMismatch"
proof -
  have signed: "typedJson (TInt k) (JNumber (FormatInt (2 ^ (bits k - 1)))) = Inl (OverflowError (TInt k)) \<and>
      typedJson (TInt k) (JNumber (FormatInt (2 ^ (bits k - 1) - 1))) = Inr (VInt k (2 ^ (bits k - 1) - 1))"
    by (cases k) (simp_all add: decimal_eval)
  have unsigned: "typedJson (TUint k) (JNumber ''0'') = Inr (VUint k 0)"
    by (cases k) (simp_all add: decimal_eval)
  have minus: "typedJson (TUint k) (JNumber raw) = Inl (OverflowError (TUint k))"
    if "raw \<noteq> []" "hd raw = CHR ''-''" for raw
    using that by (cases raw) simp_all
  have kind: "err_is (OverflowError (TUint k)) ErrIntegerOverflow \<and>
      \<not> err_is (OverflowError (TUint k)) ErrTypeMismatch"
    by (simp add: OverflowError_def ErrIntegerOverflow_def ErrTypeMismatch_def)
  from signed unsigned minus kind show ?thesis by simp
qed

theorem typedJson_integer_bounds_witness:
  "typedJson (TInt W8) (JNumber ''128'') = Inl (OverflowError (TInt W8)) \<and>
   typedJson (TInt W8) (JNumber ''127'') = Inr (VInt W8 127) \<and>
   typedJson (TUint W8) (JNumber ''-1.5'') = Inl (OverflowError (TUint W8)) \<and>
   Error (OverflowError (TUint W8)) = ''for type uint8: integer overflow''"
  using typedJson_integer_bounds [of W8 "''-1.5''"]
  by (simp add: decimal_eval OverflowError_def ErrIntegerOverflow_def)

section \<open>Properties of \<open>validationError.Error\<close>\<close>

lemma Error_lines_map_of: "map_of (Error_lines m) k = map_option Error (map_of m k)"
  by (induction m) auto

lemma Error_lines_eq: "Error_lines m = map (\<lambda>(k, e). (k, Error e)) m"
  by (induction m) auto

lemma keys_sort_key: "map fst (sort_key fst m) = sort (map fst m)"
  by (rule properties_for_sort[symmetric]) (simp_all add: )

lemma items_by_key:
  "distinct (map fst xs) \<Longrightarrow> set xs \<subseteq> set m \<Longrightarrow> distinct (map fst m) \<Longrightarrow>
   map (\<lambda>k. ''- '' @ k @ '': '' @ (case map_of (Error_lines m) k of Some s \<Rightarrow> s | None \<Rightarrow> [])) (map fst xs)
     = map (\<lambda>(k, e). item k e) xs"
  by (induction xs) (auto simp: Error_lines_map_of item_def)

lemma Error_Agg:
  assumes "distinct (map fst m)"
  shows "Error (Agg m) =
    (if m = [] then [] else ''validation failed with the following errors:'' @
        concat (map (\<lambda>(k, e). item k e) (sort_key fst m)))"
proof -
  have "distinct (map fst (sort_key fst m))"
    using assms by (simp add: keys_sort_key)
  from items_by_key[OF this _ assms, unfolded keys_sort_key] show ?thesis
    by (simp add: Let_def)
qed

lemma Error_perm:
  assumes "distinct (map fst m)" "mset m' = mset m"
  shows "Error (Agg m') = Error (Agg m)"
proof -
  from assms(2) have s: "set m' = set m" by (rule mset_eq_setD)
  from assms(2) have "mset (map fst m') = mset (map fst m)" by simp
  with assms(1) have d: "distinct (map fst m')" by (metis mset_eq_imp_distinct_iff)
  have k: "sort (map fst m') = sort (map fst m)"
    using \<open>mset (map fst m') = mset (map fst m)\<close> by (metis sorted_list_of_multiset_mset)
  have mo: "map_of m' = map_of m"
    using d assms(1) s by (simp add: map_of_inject_set)
  have "map_of (Error_lines m') = map_of (Error_lines m)"
    by (rule ext) (simp add: Error_lines_map_of mo)
  moreover have "m' = [] \<longleftrightarrow> m = []" using s by auto
  ultimately show ?thesis using k by (simp add: Let_def)
qed

text \<open>
  C4, as the specification states it, asks for the header on a line of its own and each
  entry on its own line. \<open>Error\<close> writes no line break: for two entries the message is
  one line.
\<close>

theorem Error_is_one_line:
  "split_on (CHR 0x0A) (Error (Agg [(''a'', Msg ''x''), (''b'', Msg ''y'')]))
     = [''validation failed with the following errors:- a: x- b: y'']"
  by simp

text \<open>
  C4, amended. The message of a non-empty \<open>validationError\<close> is the header text followed
  directly by the items \<open>- path: message\<close> of its entries in ascending order of the
  paths, with nothing written between them; it does not depend on the order in which
  the entries of the map are met.
\<close>

theorem Error_sorted_items:
  assumes "distinct (map fst m)" and "mset m' = mset m"
  shows "Error (Agg m') = Error (Agg m) \<and>
    Error (Agg m) =
      (if m = [] then []
       else ''validation failed with the following errors:'' @
            concat (map (\<lambda>(k, e). item k e) (sort_key fst m))) \<and>
    sorted (map fst (sort_key fst m))"
  using Error_perm [OF assms] Error_Agg [OF assms(1)] by (simp add: keys_sort_key)

theorem Error_sorted_items_witness:
  "distinct (map fst [(''b'', Msg ''y''), (''a'', Msg ''x'')]) \<and>
   mset [(''a'', Msg ''x''), (''b'', Msg ''y'')] = mset [(''b'', Msg ''y''), (''a'', Msg ''x'')] \<and>
   Error (Agg [(''a'', Msg ''x''), (''b'', Msg ''y'')]) = Error (Agg [(''b'', Msg ''y''), (''a'', Msg ''x'')]) \<and>
   Error (Agg [(''b'', Msg ''y''), (''a'', Msg ''x'')])
     = ''validation failed with the following errors:- a: x- b: y''"
  using Error_sorted_items [of "[(''b'', Msg ''y''), (''a'', Msg ''x'')]" "[(''a'', Msg ''x''), (''b'', Msg ''y'')]"]
  by (simp add: item_def)

section \<open>Properties of \<open>Schema.Validate\<close>: unknown keys\<close>

lemmas validate_eval =
  structural_def merge_params_def merge_param_def check_key_def voFields_def Name_def
  UniqueName_def has_key_def add_def store_def missing_def merge_error_def
  validate_scalar_def validateRaw_def field_error_def setNestedField_def
  setObjectField_def copy_params_def element_error_def index_key_def





section \<open>Properties of nested validation\<close>

text \<open>
  C6, amended. An element of an array of objects whose validation fails with a
  \<open>validationError\<close> of exactly one entry adds the inner error of that entry under
  \<open>field[i]\<close>; with any other number of entries it adds the whole \<open>validationError\<close> as
  the one entry \<open>field[i]\<close>. The failure of an embedded object is merged flat: every
  entry of its \<open>validationError\<close> goes into the errors of the caller under its own path.
  So for an embedded object \<open>user\<close> whose field \<open>email\<close> has a validator that refuses
  \<open>"bad"\<close> (with an error that is no \<open>validationError\<close>), the document
  \<open>{"user":{"email":"bad"}}\<close> gives one entry, \<open>email\<close>, holding the validator's error
  wrapped once with the field name.
\<close>

theorem nested_failures:
  "(Validate nested (Body (JObject members)) [] = Err e \<longrightarrow>
      validate_objects nested name (JObject members # rest) i (errs, vals) =
      validate_objects nested name rest (Suc i)
        (add (index_key name i) (element_error e) errs, vals)) \<and>
   (as_validation e = Some [(k, inner)] \<longrightarrow> element_error e = inner) \<and>
   (as_validation e = Some m \<and> length m \<noteq> 1 \<longrightarrow> element_error e = e) \<and>
   (isObject f \<and> \<not> isArray f \<and> embedded f = Some nested \<and>
    Validate nested (Body node) [] = Err (Agg m) \<longrightarrow>
      store f (validate f node) (object, errs)
        = Returns (object, fold (\<lambda>kv errs. add (fst kv) (snd kv) errs) m errs)) \<and>
   (vfn (VString ''bad'') = Some e' \<and> as_validation e' = None \<longrightarrow>
      Validate (Schema [Field ''user'' True False True
                   (Some (Schema [Field ''email'' True False False None TString [vfn]] False))
                   TString []] False)
        (Body (JObject [(''user'', JObject [(''email'', JString ''bad'')])])) []
      = Err (Agg [(''email'', Wrapf (''field '' @ quoted ''email'' @ '': '') e' [])]))"
proof -
  have obj: "store f (validate f node) (object, errs)
        = Returns (object, fold (\<lambda>kv errs. add (fst kv) (snd kv) errs) m errs)"
    if "isObject f" "\<not> isArray f" "embedded f = Some nested"
       "Validate nested (Body node) [] = Err (Agg m)"
    using that by (cases f) (simp add: store_def merge_error_def)
  have scen: "Validate (Schema [Field ''user'' True False True
                   (Some (Schema [Field ''email'' True False False None TString [vfn]] False))
                   TString []] False)
        (Body (JObject [(''user'', JObject [(''email'', JString ''bad'')])])) []
      = Err (Agg [(''email'', Wrapf (''field '' @ quoted ''email'' @ '': '') e' [])])"
    if "vfn (VString ''bad'') = Some e'" "as_validation e' = None"
    using that by (simp add: validate_eval quoted_def)
  from obj scen show ?thesis
    by (auto simp: element_error_def)
qed

theorem nested_failures_witness:
  "Validate (Schema [Field ''id'' True False False None (TInt WInt) []] False) (Body (JObject [])) []
     = Err (Agg [(''id'', Wrapf ''id '' ErrRequired [])]) \<and>
   validate (Field ''items'' True True True
               (Some (Schema [Field ''id'' True False False None (TInt WInt) []] False)) TString [])
            (JArray [JObject []])
     = Err (Agg [(''items[0]'', Wrapf ''id '' ErrRequired [])]) \<and>
   element_error (Agg []) = Agg [] \<and>
   store (Field ''o'' True False True
               (Some (Schema [Field ''id'' True False False None (TInt WInt) []] False)) TString [])
         (validate (Field ''o'' True False True
               (Some (Schema [Field ''id'' True False False None (TInt WInt) []] False)) TString [])
            (JObject [])) ([], [])
     = Returns ([], [(''id'', Wrapf ''id '' ErrRequired [])]) \<and>
   Validate (Schema [Field ''user'' True False True
                (Some (Schema [Field ''email'' True False False None TString
                                 [\<lambda>v. if v = VString ''a@b.c'' then None else Some (Msg ''not valid email address'')]] False))
                TString []] False)
        (Body (JObject [(''user'', JObject [(''email'', JString ''bad'')])])) []
      = Err (Agg [(''email'', Wrapf (''field '' @ quoted ''email'' @ '': '') (Msg ''not valid email address'') [])])"
  using nested_failures
    [where nested = "Schema [Field ''id'' True False False None (TInt WInt) []] False"
       and members = "[]" and e = "Agg [(''id'', Wrapf ''id '' ErrRequired [])]"
       and name = "''items''" and rest = "[]" and i = 0 and errs = "[]" and vals = "[]"
       and k = "''id''" and inner = "Wrapf ''id '' ErrRequired []"
       and m = "[(''id'', Wrapf ''id '' ErrRequired [])]"
       and f = "Field ''o'' True False True
               (Some (Schema [Field ''id'' True False False None (TInt WInt) []] False)) TString []"
       and node = "JObject []" and object = "[]"
       and vfn = "\<lambda>v. if v = VString ''a@b.c'' then None else Some (Msg ''not valid email address'')"
       and e' = "Msg ''not valid email address''"]
    nested_failures
    [where e = "Agg []" and m = "[]" and f = "Field ''o'' True False False None TString []"
       and nested = "Schema [] False" and members = "[]" and vfn = "\<lambda>v. None"]
  by (simp add: validate_eval quoted_def decimal_eval)

text \<open>
  C6, as the specification states it, says that the entries of a nested failure with
  more than one entry are merged flat into the outer errors. For an element of an array
  of objects they are not: the element \<open>{}\<close>, which misses two required fields, gives the
  single entry \<open>items[0]\<close>, and its error is the nested \<open>validationError\<close>.
\<close>

theorem element_aggregate_not_flat:
  "Validate (Schema [Field ''items'' True True True
                (Some (Schema [Field ''id'' True False False None (TInt WInt) [],
                               Field ''name'' True False False None TString []] False))
                TString []] False)
      (Body (JObject [(''items'', JArray [JObject []])])) []
     = Err (Agg [(''items[0]'',
                  Agg [(''id'', Wrapf ''id '' ErrRequired []),
                       (''name'', Wrapf ''name '' ErrRequired [])])])"
  by (simp add: validate_eval decimal_eval)

end
